theory Spec2Isabelle
  imports Complex_Main "HOL-Library.Word"
begin

section \<open>Strings, buffers and numbers\<close>

text \<open>
  The program is \<^verbatim>\<open>src/src/request.ts\<close>. A JavaScript string is modelled as
  \<^typ>\<open>string\<close>: a list of code units restricted to the range below 256, which is
  what \<^typ>\<open>char\<close> enumerates. A \<^verbatim>\<open>Buffer\<close> is a list of bytes. On that range
  the UTF-8 encoding done by \<^verbatim>\<open>Buffer.from(str)\<close> and by \<^verbatim>\<open>socket.write(str)\<close>
  writes a code unit below 128 as one byte and any other as two bytes.
\<close>

type_synonym byte = "8 word"
type_synonym Buffer = "byte list"

definition utf8 :: "char \<Rightarrow> Buffer" where
  "utf8 c = (let n = (of_char c :: nat) in
     if n < 128 then [of_nat n] else [of_nat (192 + n div 64), of_nat (128 + n mod 64)])"

definition Buffer_from :: "string \<Rightarrow> Buffer" where
  "Buffer_from s = concat (map utf8 s)"

text \<open>\<^verbatim>\<open>Buffer.byteLength(str)\<close> counts the bytes without building the buffer.\<close>

fun Buffer_byteLength :: "string \<Rightarrow> nat" where
  "Buffer_byteLength [] = 0"
| "Buffer_byteLength (c # s) = (if (of_char c :: nat) < 128 then 1 else 2) + Buffer_byteLength s"

text \<open>\<^verbatim>\<open>chunk.subarray(start, end)\<close> and \<^verbatim>\<open>slice(start, end)\<close> for \<open>start \<le> end\<close>.\<close>

definition subarray :: "Buffer \<Rightarrow> nat \<Rightarrow> nat \<Rightarrow> Buffer" where
  "subarray chunk start end = take (end - start) (drop start chunk)"

text \<open>\<^verbatim>\<open>Number.prototype.toString\<close> on a non-negative integer: its decimal digits.\<close>

definition digit :: "nat \<Rightarrow> char" where
  "digit d = char_of (48 + d)"

fun toString :: "nat \<Rightarrow> string" where
  "toString n = (if n < 10 then [digit n] else toString (n div 10) @ [digit (n mod 10)])"

declare toString.simps [simp del]

definition isDigit :: "char \<Rightarrow> bool" where
  "isDigit c = (48 \<le> (of_char c :: nat) \<and> (of_char c :: nat) \<le> 57)"

definition decimal :: "string \<Rightarrow> int" where
  "decimal s = foldl (\<lambda>n c. 10 * n + (of_char c - 48)) 0 s"

definition toLowerCase_char :: "char \<Rightarrow> char" where
  "toLowerCase_char c = (let n = (of_char c :: nat) in
     if (65 \<le> n \<and> n \<le> 90) \<or> (192 \<le> n \<and> n \<le> 222 \<and> n \<noteq> 215)
     then char_of (n + 32) else c)"

definition toLowerCase :: "string \<Rightarrow> string" where
  "toLowerCase s = map toLowerCase_char s"

definition CRLF :: string where
  "CRLF = [CHR 0x0D, CHR 0x0A]"

text \<open>\<^verbatim>\<open>Array.prototype.join\<close>.\<close>

fun join :: "string \<Rightarrow> string list \<Rightarrow> string" where
  "join sep [] = []"
| "join sep [x] = x"
| "join sep (x # y # ys) = x @ sep @ join sep (y # ys)"

section \<open>Objects with string keys\<close>

text \<open>
  A \<^verbatim>\<open>Record<string, string>\<close> is the list of its properties in creation order.
  Assigning to a key that exists keeps its place; a new key goes last.
  \<^verbatim>\<open>Object.entries\<close> and the spread \<^verbatim>\<open>{...src}\<close> enumerate the keys that are
  array indices first, in ascending numeric order, then the others in creation order.
\<close>

type_synonym obj = "(string \<times> string) list"

fun obj_set :: "string \<Rightarrow> string \<Rightarrow> obj \<Rightarrow> obj" where
  "obj_set k v [] = [(k, v)]"
| "obj_set k v ((k', v') # ps) =
     (if k' = k then (k, v) # ps else (k', v') # obj_set k v ps)"

definition isArrayIndex :: "string \<Rightarrow> bool" where
  "isArrayIndex k = (k \<noteq> [] \<and> list_all isDigit k \<and> (k = ''0'' \<or> hd k \<noteq> CHR ''0'')
     \<and> decimal k < 4294967295)"

definition Object_entries :: "obj \<Rightarrow> obj" where
  "Object_entries ob =
     sort_key (\<lambda>p. decimal (fst p)) (filter (\<lambda>p. isArrayIndex (fst p)) ob)
     @ filter (\<lambda>p. \<not> isArrayIndex (fst p)) ob"

definition spread :: "obj \<Rightarrow> obj \<Rightarrow> obj" where
  "spread ob src = fold (\<lambda>p. obj_set (fst p) (snd p)) (Object_entries src) ob"

section \<open>Error values\<close>

text \<open>
  The errors that the platform emits and that \<^verbatim>\<open>new Error(message)\<close> makes are
  instances of the class \<^verbatim>\<open>Error\<close>: \<open>PlainError\<close> with the message or code. The
  other three constructors are the classes of section 7 of the specification, each
  carrying its cause. No code under \<^verbatim>\<open>src/\<close> constructs them; they are here so that
  a rejection with one of them can be told from a rejection with the cause itself.
\<close>

datatype error =
  PlainError string
| ConnectionError error
| TransportError error
| ParseError error

section \<open>Time values\<close>

text \<open>
  A JavaScript \<^verbatim>\<open>number\<close>: NaN, a finite value, which is a rational number here (every
  finite double is one), or an infinity. Positive and negative zero are both \<open>Finite 0\<close>.
\<close>

datatype number = NaN | Finite rat | PosInfinity | NegInfinity

text \<open>
  \<^verbatim>\<open>type Time = string | number | Date\<close>. A Date carries its time value, a whole
  number of milliseconds, or NaN (\<open>None\<close>) for an invalid Date.
\<close>

datatype Time = TimeString string | TimeNumber number | TimeDate "int option"

text \<open>The test \<^verbatim>\<open>if (targetTime)\<close> on a value that is present: JavaScript truthiness.\<close>

fun truthy :: "Time \<Rightarrow> bool" where
  "truthy (TimeString s) = (s \<noteq> [])"
| "truthy (TimeNumber NaN) = False"
| "truthy (TimeNumber (Finite q)) = (q \<noteq> 0)"
| "truthy (TimeNumber PosInfinity) = True"
| "truthy (TimeNumber NegInfinity) = True"
| "truthy (TimeDate d) = True"

text \<open>
  \<^verbatim>\<open>new Date(targetTime).getTime()\<close>. A number goes through \<^verbatim>\<open>TimeClip\<close>: NaN
  when it is not finite or beyond the range of time values, and otherwise the number
  truncated toward zero to a whole number of milliseconds. A Date is copied. A string
  goes through the engine's date parser, which the language leaves to the
  implementation: it is the parameter \<open>parse\<close>, giving a time value or NaN.
\<close>

definition trunc :: "rat \<Rightarrow> int" where
  "trunc q = (if 0 \<le> q then \<lfloor>q\<rfloor> else \<lceil>q\<rceil>)"

fun TimeClip :: "number \<Rightarrow> int option" where
  "TimeClip (Finite q) = (if \<bar>q\<bar> > 8640000000000000 then None else Some (trunc q))"
| "TimeClip NaN = None"
| "TimeClip PosInfinity = None"
| "TimeClip NegInfinity = None"

fun Date_getTime :: "(string \<Rightarrow> int option) \<Rightarrow> Time \<Rightarrow> int option" where
  "Date_getTime parse (TimeString s) =
     Option.bind (parse s) (\<lambda>t. TimeClip (Finite (of_int t)))"
| "Date_getTime parse (TimeNumber n) = TimeClip n"
| "Date_getTime parse (TimeDate d) = d"

text \<open>The instant that a target time names, where it names one, as a number of milliseconds.\<close>

fun instant :: "(string \<Rightarrow> int option) \<Rightarrow> Time \<Rightarrow> rat option" where
  "instant parse (TimeString s) = map_option of_int (parse s)"
| "instant parse (TimeNumber (Finite q)) = Some q"
| "instant parse (TimeNumber n) = None"
| "instant parse (TimeDate d) = map_option of_int d"

section \<open>The scheduling primitive\<close>

text \<open>
  \<^verbatim>\<open>setInterval(body, 1)\<close> registers an interval whose body runs at every polling
  check until \<^verbatim>\<open>clearInterval\<close> removes it. The state of the event loop is the
  application state and the list of armed intervals. A callback acts on the application
  state and then either returns or throws; either way it leaves a state.
\<close>

datatype 's completion = Normal 's | Thrown error 's

fun completed :: "'s completion \<Rightarrow> 's" where
  "completed (Normal s) = s"
| "completed (Thrown e s) = s"

record 's interval =
  targetTimeNumber :: "int option"
  callback :: "'s \<Rightarrow> 's completion"

record 's loop =
  app :: 's
  timers :: "'s interval list"

definition doOnTargetTime ::
  "(string \<Rightarrow> int option) \<Rightarrow> ('s \<Rightarrow> 's completion) \<Rightarrow> Time \<Rightarrow> 's loop \<Rightarrow> 's loop" where
  "doOnTargetTime parse cb target w =
     w\<lparr>timers := timers w @
        [\<lparr>targetTimeNumber = Date_getTime parse target, callback = cb\<rparr>]\<rparr>"

text \<open>\<^verbatim>\<open>Date.now() >= targetTimeNumber\<close>; every comparison with NaN is false.\<close>

definition reached :: "int \<Rightarrow> int option \<Rightarrow> bool" where
  "reached now t = (case t of None \<Rightarrow> False | Some T \<Rightarrow> T \<le> now)"

text \<open>
  One polling check of one interval, the body given to \<^verbatim>\<open>setInterval\<close>: when the
  time is reached the callback runs and then \<^verbatim>\<open>clearInterval(timeout)\<close> clears the
  interval; otherwise it stays armed. A callback that throws leaves the body before
  \<^verbatim>\<open>clearInterval\<close>, so the interval stays armed; the exception is not caught by
  the program, and the model follows a process that goes on running.
\<close>

fun poll :: "int \<Rightarrow> 's interval \<Rightarrow> 's \<times> 's interval list \<Rightarrow> 's \<times> 's interval list" where
  "poll now iv (s, armed) =
     (if reached now (targetTimeNumber iv)
      then (case callback iv s of
              Normal s' \<Rightarrow> (s', armed)
            | Thrown e s' \<Rightarrow> (s', armed @ [iv]))
      else (s, armed @ [iv]))"

text \<open>A tick of the timer: every armed interval is checked once, the clock reading \<open>now\<close>.\<close>

definition tick :: "int \<Rightarrow> 's loop \<Rightarrow> 's loop" where
  "tick now w = (case fold (poll now) (timers w) (app w, []) of
     (s, armed) \<Rightarrow> \<lparr>app = s, timers = armed\<rparr>)"

section \<open>Requests, responses and the connection\<close>

text \<open>
  An optional field of \<^verbatim>\<open>RequestOptions\<close> that the caller leaves out is \<open>None\<close>;
  the spread over \<^verbatim>\<open>defaultOptions\<close> then supplies the default. A key that is
  present with the value \<^verbatim>\<open>undefined\<close> is outside the model.
\<close>

record RequestOptions =
  host :: string
  port :: nat
  "method" :: "string option"
  path :: "string option"
  headers :: "obj option"
  body :: "string option"
  targetTime :: "Time option"
  https :: "bool option"

record HttpResponse =
  statusCode :: nat
  statusText :: string
  headers :: obj
  body :: string

text \<open>
  What one call of \<^verbatim>\<open>request\<close> owns: the payloads given to \<^verbatim>\<open>socket.write\<close> in
  call order, the number of calls of \<^verbatim>\<open>socket.end\<close>, the buffer
  \<^verbatim>\<open>responseData\<close>, the promise, which keeps the first settlement, and whether
  the listeners for \<^verbatim>\<open>'data'\<close> and \<^verbatim>\<open>'error'\<close> are registered on a socket.
\<close>

datatype settled = Resolved HttpResponse | Rejected error

record conn =
  written :: "Buffer list"
  ended :: nat
  responseData :: Buffer
  promise :: "settled option"
  listening :: bool

text \<open>
  The state with a connected socket when the executor of the promise has registered the
  listeners, and the state of a call that has no socket.
\<close>

definition socket0 :: conn where
  "socket0 = \<lparr>written = [], ended = 0, responseData = [], promise = None, listening = True\<rparr>"

definition unconnected :: conn where
  "unconnected =
     \<lparr>written = [], ended = 0, responseData = [], promise = None, listening = False\<rparr>"

definition socket_write :: "Buffer \<Rightarrow> conn \<Rightarrow> conn" where
  "socket_write data c = c\<lparr>written := written c @ [data]\<rparr>"

text \<open>The callbacks given to \<^verbatim>\<open>doOnTargetTime\<close>: a write and a log line, then return.\<close>

definition write_callback :: "Buffer \<Rightarrow> conn \<Rightarrow> conn completion" where
  "write_callback data c = Normal (socket_write data c)"

definition socket_end :: "conn \<Rightarrow> conn" where
  "socket_end c = c\<lparr>ended := Suc (ended c)\<rparr>"

definition settle :: "settled \<Rightarrow> conn \<Rightarrow> conn" where
  "settle r c = (case promise c of None \<Rightarrow> c\<lparr>promise := Some r\<rparr> | Some _ \<Rightarrow> c)"

section \<open>What the program is given by its platform\<close>

text \<open>
  The parser of the package \<^verbatim>\<open>http-parser-js\<close> reports through callbacks. One run
  of a fresh parser, \<^verbatim>\<open>parser.execute(rawResponse)\<close> followed by
  \<^verbatim>\<open>parser.finish()\<close>, is the list of callbacks it makes, in order, and what
  \<^verbatim>\<open>execute\<close> returns: an Error (\<open>Inl\<close>) or the number of bytes parsed.
  \<^verbatim>\<open>info.headers\<close> is a flat array of names and values alternating.
\<close>

record info =
  statusCode :: nat
  statusMessage :: "string option"
  headers :: "string list"

datatype parser_event = HeadersComplete info | Body Buffer nat nat | MessageComplete

text \<open>
  The platform is a parameter of the model: the parser, the decoding
  \<^verbatim>\<open>Buffer.prototype.toString\<close>, the date parser behind \<^verbatim>\<open>new Date(string)\<close>,
  and the network, which answers a connection attempt to a port and host, with or
  without TLS, by the connection, by an error, or never. \<^verbatim>\<open>connect\<close> calls
  \<^verbatim>\<open>socket.setTimeout(30000)\<close> but registers no listener for \<^verbatim>\<open>'timeout'\<close>, so
  an attempt that is never answered neither resolves nor rejects.
\<close>

datatype answer = Established | Refused error | Silent

record env =
  HTTPParser :: "Buffer \<Rightarrow> parser_event list \<times> (error + nat)"
  Buffer_toString :: "Buffer \<Rightarrow> string"
  Date_parse :: "string \<Rightarrow> int option"
  network :: "nat \<Rightarrow> string \<Rightarrow> bool \<Rightarrow> answer"

section \<open>parseResponse\<close>

text \<open>The local object \<^verbatim>\<open>response\<close> that the three callbacks fill.\<close>

record response =
  statusCode :: nat
  statusText :: string
  headers :: obj
  bodyChunks :: "Buffer list"
  body :: "string option"

definition response0 :: response where
  "response0 = \<lparr>response.statusCode = 0, response.statusText = [], response.headers = [],
     bodyChunks = [], response.body = None\<rparr>"

text \<open>
  The loop over \<^verbatim>\<open>info.headers\<close> in steps of two. The library passes an even
  number of strings; a last name without a value is left out here.
\<close>

fun header_loop :: "string list \<Rightarrow> obj \<Rightarrow> obj" where
  "header_loop (key # val # rest) hs = header_loop rest (obj_set (toLowerCase key) val hs)"
| "header_loop _ hs = hs"

definition kOnHeadersComplete :: "info \<Rightarrow> response \<Rightarrow> response" where
  "kOnHeadersComplete i r =
     r\<lparr>response.statusCode := info.statusCode i,
       response.statusText := (case statusMessage i of None \<Rightarrow> [] | Some m \<Rightarrow> m),
       response.headers := header_loop (info.headers i) (response.headers r)\<rparr>"

definition kOnBody :: "Buffer \<Rightarrow> nat \<Rightarrow> nat \<Rightarrow> response \<Rightarrow> response" where
  "kOnBody chunk offset len r =
     r\<lparr>bodyChunks := bodyChunks r @ [subarray chunk offset (offset + len)]\<rparr>"

definition kOnMessageComplete :: "env \<Rightarrow> response \<Rightarrow> response" where
  "kOnMessageComplete rt r =
     (if length (bodyChunks r) > 0
      then r\<lparr>response.body := Some (Buffer_toString rt (concat (bodyChunks r)))\<rparr>
      else r\<lparr>response.body := Some []\<rparr>)"

fun dispatch :: "env \<Rightarrow> parser_event \<Rightarrow> response \<Rightarrow> response" where
  "dispatch rt (HeadersComplete i) r = kOnHeadersComplete i r"
| "dispatch rt (Body chunk offset len) r = kOnBody chunk offset len r"
| "dispatch rt MessageComplete r = kOnMessageComplete rt r"

text \<open>The object \<^verbatim>\<open>response\<close> when the \<^verbatim>\<open>try\<close> block is left.\<close>

definition parsed :: "env \<Rightarrow> Buffer \<Rightarrow> response" where
  "parsed rt rawResponse = fold (dispatch rt) (fst (HTTPParser rt rawResponse)) response0"

text \<open>
  The error that reaches the \<^verbatim>\<open>catch\<close> clause, if any: the Error returned by
  \<^verbatim>\<open>execute\<close>, or the one thrown when the status code is still 0 (its message is
  in Chinese in the source and says that the status code of the response cannot be
  parsed). The clause logs the error and does nothing else.
\<close>

definition caught :: "env \<Rightarrow> Buffer \<Rightarrow> error option" where
  "caught rt rawResponse =
     (case snd (HTTPParser rt rawResponse) of
        Inl parseResult \<Rightarrow> Some parseResult
      | Inr bytesParsed \<Rightarrow>
          if response.statusCode (parsed rt rawResponse) = 0
          then Some (PlainError ''cannot parse the status code of the HTTP response'')
          else None)"

definition parseResponse :: "env \<Rightarrow> Buffer \<Rightarrow> HttpResponse" where
  "parseResponse rt rawResponse =
     (let response = parsed rt rawResponse in
      \<lparr>HttpResponse.statusCode = response.statusCode response,
       HttpResponse.statusText = response.statusText response,
       HttpResponse.headers = response.headers response,
       HttpResponse.body = (case response.body response of None \<Rightarrow> [] | Some b \<Rightarrow> b)\<rparr>)"

section \<open>Sending the request\<close>

definition headerLines :: "obj \<Rightarrow> string" where
  "headerLines hs = join CRLF (map (\<lambda>(key, val). key @ '': '' @ val) (Object_entries hs))"

definition requestHead :: "obj \<Rightarrow> string \<Rightarrow> string \<Rightarrow> string" where
  "requestHead hs meth pth = (meth @ '' '' @ pth @ '' HTTP/1.1'' @ CRLF) @ headerLines hs"

definition emptyRow :: string where
  "emptyRow = CRLF @ CRLF"

text \<open>
  \<^verbatim>\<open>sendHeader\<close> and \<^verbatim>\<open>sendBody\<close>. The socket always exists when they are
  called, so the test \<^verbatim>\<open>!socket\<close> has no branch here.
\<close>

definition sendHeader ::
  "env \<Rightarrow> obj \<Rightarrow> string \<Rightarrow> string \<Rightarrow> Time option \<Rightarrow> conn loop \<Rightarrow> conn loop" where
  "sendHeader rt hs meth pth target w =
     (let w1 = w\<lparr>app := socket_write (Buffer_from (requestHead hs meth pth)) (app w)\<rparr> in
      case target of
        Some t \<Rightarrow>
          if truthy t
          then doOnTargetTime (Date_parse rt) (write_callback (Buffer_from emptyRow)) t w1
          else w1\<lparr>app := socket_write (Buffer_from emptyRow) (app w1)\<rparr>
      | None \<Rightarrow> w1\<lparr>app := socket_write (Buffer_from emptyRow) (app w1)\<rparr>)"

definition baseChunk :: "string \<Rightarrow> Buffer" where
  "baseChunk bdy = (let buffer = Buffer_from bdy in subarray buffer 0 (length buffer - 1))"

definition endChunk :: "string \<Rightarrow> Buffer" where
  "endChunk bdy =
     (let buffer = Buffer_from bdy in subarray buffer (length buffer - 1) (length buffer))"

definition sendBody :: "env \<Rightarrow> string \<Rightarrow> Time option \<Rightarrow> conn loop \<Rightarrow> conn loop" where
  "sendBody rt bdy target w =
     (let w1 = w\<lparr>app := socket_write (baseChunk bdy) (app w)\<rparr> in
      case target of
        Some t \<Rightarrow>
          if truthy t
          then doOnTargetTime (Date_parse rt) (write_callback (endChunk bdy)) t w1
          else w1\<lparr>app := socket_write (endChunk bdy) (app w1)\<rparr>
      | None \<Rightarrow> w1\<lparr>app := socket_write (endChunk bdy) (app w1)\<rparr>)"

section \<open>request\<close>

text \<open>
  The promise of \<^verbatim>\<open>connect\<close>: rejected with the socket's error, resolved with the
  socket, or never settled (\<open>None\<close>).
\<close>

definition connect :: "env \<Rightarrow> nat \<Rightarrow> string \<Rightarrow> bool \<Rightarrow> (error + unit) option" where
  "connect rt prt hst tls =
     (case network rt prt hst tls of
        Established \<Rightarrow> Some (Inr ())
      | Refused e \<Rightarrow> Some (Inl e)
      | Silent \<Rightarrow> None)"

text \<open>The options after the spread over \<^verbatim>\<open>defaultOptions\<close>.\<close>

definition the_method :: "RequestOptions \<Rightarrow> string" where
  "the_method opts = (case method opts of None \<Rightarrow> ''GET'' | Some m \<Rightarrow> m)"

definition the_path :: "RequestOptions \<Rightarrow> string" where
  "the_path opts = (case path opts of None \<Rightarrow> ''/'' | Some p \<Rightarrow> p)"

definition the_headers :: "RequestOptions \<Rightarrow> obj" where
  "the_headers opts = (case RequestOptions.headers opts of None \<Rightarrow> [] | Some h \<Rightarrow> h)"

definition the_body :: "RequestOptions \<Rightarrow> string" where
  "the_body opts = (case RequestOptions.body opts of None \<Rightarrow> [] | Some b \<Rightarrow> b)"

definition the_https :: "RequestOptions \<Rightarrow> bool" where
  "the_https opts = (case https opts of None \<Rightarrow> False | Some b \<Rightarrow> b)"

definition isHasBodyRequest :: "RequestOptions \<Rightarrow> bool" where
  "isHasBodyRequest opts =
     (the_body opts \<noteq> [] \<and> the_method opts \<noteq> ''GET'' \<and> the_method opts \<noteq> ''HEAD'')"

definition defaultHeaders :: "RequestOptions \<Rightarrow> obj" where
  "defaultHeaders opts =
     [(''Host'', host opts), (''Connection'', ''keep-alive''), (''accept'', ''application/json'')]"

definition requestHeaders :: "RequestOptions \<Rightarrow> obj" where
  "requestHeaders opts =
     (let hs = spread (defaultHeaders opts) (the_headers opts) in
      if isHasBodyRequest opts
      then obj_set ''Content-Length'' (toString (Buffer_byteLength (the_body opts))) hs
      else hs)"

text \<open>
  The state in which \<^verbatim>\<open>request\<close> leaves the event loop before any event of the
  socket or of a timer is handled: the promise is pending for ever when \<^verbatim>\<open>connect\<close>
  never settles and rejected when it fails, in both cases with no listener registered;
  otherwise \<^verbatim>\<open>sendHeader\<close> has run and, in a microtask, \<^verbatim>\<open>sendBody\<close>.
\<close>

definition request :: "env \<Rightarrow> RequestOptions \<Rightarrow> conn loop" where
  "request rt opts =
     (case connect rt (port opts) (host opts) (the_https opts) of
        None \<Rightarrow> \<lparr>app = unconnected, timers = []\<rparr>
      | Some (Inl e) \<Rightarrow> \<lparr>app = settle (Rejected e) unconnected, timers = []\<rparr>
      | Some (Inr socket) \<Rightarrow>
          (let w = sendHeader rt (requestHeaders opts) (the_method opts) (the_path opts)
                     (if isHasBodyRequest opts then None else targetTime opts)
                     \<lparr>app = socket0, timers = []\<rparr>
           in if isHasBodyRequest opts then sendBody rt (the_body opts) (targetTime opts) w
              else w))"

text \<open>
  The events that follow: a chunk received (\<^verbatim>\<open>'data'\<close>), an error of the socket
  (\<^verbatim>\<open>'error'\<close>), a tick of the timer. An event of the socket runs its listener
  when the listener is registered.
\<close>

datatype event = Data Buffer | Error error | Tick int

definition on_data :: "env \<Rightarrow> Buffer \<Rightarrow> conn \<Rightarrow> conn" where
  "on_data rt chunk c =
     (let c1 = c\<lparr>responseData := responseData c @ chunk\<rparr> in
      socket_end (settle (Resolved (parseResponse rt (responseData c1))) c1))"

definition on_error :: "error \<Rightarrow> conn \<Rightarrow> conn" where
  "on_error e c = settle (Rejected e) c"

fun step :: "env \<Rightarrow> event \<Rightarrow> conn loop \<Rightarrow> conn loop" where
  "step rt (Data chunk) w =
     (if listening (app w) then w\<lparr>app := on_data rt chunk (app w)\<rparr> else w)"
| "step rt (Error e) w =
     (if listening (app w) then w\<lparr>app := on_error e (app w)\<rparr> else w)"
| "step rt (Tick now) w = tick now w"

definition run :: "env \<Rightarrow> event list \<Rightarrow> conn loop \<Rightarrow> conn loop" where
  "run rt evs w = fold (step rt) evs w"

section \<open>A platform for the examples\<close>

text \<open>
  Modelled from the spec: the response parser of the package \<^verbatim>\<open>http-parser-js\<close>,
  which \<^verbatim>\<open>parseResponse\<close> calls and which is not under \<^verbatim>\<open>src/\<close>. It follows the
  parsing algorithm of section 4.3 of the specification on the whole buffer given to
  \<^verbatim>\<open>execute\<close>: a status line \<^verbatim>\<open>HTTP/<ver> SP <code> SP <reason> CRLF\<close>, header
  lines \<^verbatim>\<open>Name: Value CRLF\<close> with the value trimmed, up to the empty line, then a
  body framed by Content-Length, by chunked transfer encoding, or by the end of the
  stream, which \<^verbatim>\<open>finish\<close> signals. A status line or a header line that cannot be
  parsed is an Error. Only the examples use it; the general theorems hold for every parser.
\<close>

text \<open>
  Decoding of UTF-8 into the strings of this model. A byte sequence that encodes no code
  unit below 256 has no image here and is written as a question mark.
\<close>

fun toString_utf8 :: "Buffer \<Rightarrow> string" where
  "toString_utf8 [] = []"
| "toString_utf8 [a] = [if unat a < 128 then char_of (unat a) else CHR ''?'']"
| "toString_utf8 (a # b # bs) =
     (if unat a < 128 then char_of (unat a) # toString_utf8 (b # bs)
      else if (a = 194 \<or> a = 195) \<and> 128 \<le> unat b \<and> unat b < 192
      then char_of ((unat a - 192) * 64 + (unat b - 128)) # toString_utf8 bs
      else CHR ''?'' # toString_utf8 (b # bs))"

text \<open>The bytes before the first CRLF, and the bytes after it.\<close>

fun takeLine :: "Buffer \<Rightarrow> (Buffer \<times> Buffer) option" where
  "takeLine (a # b # bs) =
     (if a = 13 \<and> b = 10 then Some ([], bs)
      else (case takeLine (b # bs) of None \<Rightarrow> None | Some (l, r) \<Rightarrow> Some (a # l, r)))"
| "takeLine _ = None"

definition parseInt :: "string \<Rightarrow> nat option" where
  "parseInt s = (if s \<noteq> [] \<and> list_all isDigit s
     then Some (foldl (\<lambda>n c. 10 * n + (of_char c - 48)) 0 s) else None)"

definition hexDigit :: "char \<Rightarrow> nat option" where
  "hexDigit c = (let n = (of_char c :: nat) in
     if 48 \<le> n \<and> n \<le> 57 then Some (n - 48)
     else if 65 \<le> n \<and> n \<le> 70 then Some (n - 55)
     else if 97 \<le> n \<and> n \<le> 102 then Some (n - 87)
     else None)"

fun parseHex :: "string \<Rightarrow> nat \<Rightarrow> nat option" where
  "parseHex [] n = Some n"
| "parseHex (c # s) n = (case hexDigit c of None \<Rightarrow> None | Some d \<Rightarrow> parseHex s (16 * n + d))"

definition statusLine :: "string \<Rightarrow> (nat \<times> string) option" where
  "statusLine line =
     (if take 5 line = ''HTTP/'' then
        (let ver = takeWhile (\<lambda>c. c \<noteq> CHR '' '') (drop 5 line);
             afterVer = dropWhile (\<lambda>c. c \<noteq> CHR '' '') (drop 5 line);
             code = takeWhile (\<lambda>c. c \<noteq> CHR '' '') (drop 1 afterVer);
             reason = drop 1 (dropWhile (\<lambda>c. c \<noteq> CHR '' '') (drop 1 afterVer))
         in if ver = [] \<or> afterVer = [] then None
            else (case parseInt code of None \<Rightarrow> None | Some n \<Rightarrow> Some (n, reason)))
      else None)"

definition isBlank :: "char \<Rightarrow> bool" where
  "isBlank c = (c = CHR '' '' \<or> c = CHR 0x09)"

definition trim :: "string \<Rightarrow> string" where
  "trim s = rev (dropWhile isBlank (rev (dropWhile isBlank s)))"

definition headerLine :: "string \<Rightarrow> (string \<times> string) option" where
  "headerLine line =
     (let name = takeWhile (\<lambda>c. c \<noteq> CHR '':'') line;
          rest = dropWhile (\<lambda>c. c \<noteq> CHR '':'') line
      in if name = [] \<or> rest = [] then None else Some (name, trim (drop 1 rest)))"

text \<open>
  The complete lines before the empty line, and the bytes after the empty line when it
  has arrived.
\<close>

fun headerBlock :: "Buffer \<Rightarrow> Buffer \<Rightarrow> Buffer list \<Rightarrow> Buffer list \<times> Buffer option" where
  "headerBlock (a # b # bs) cur ls =
     (if a = 13 \<and> b = 10
      then (if cur = [] then (ls, Some bs) else headerBlock bs [] (ls @ [cur]))
      else headerBlock (b # bs) (cur @ [a]) ls)"
| "headerBlock _ cur ls = (ls, None)"

fun headerFields :: "string list \<Rightarrow> string list option" where
  "headerFields [] = Some []"
| "headerFields (l # ls) =
     (case headerLine l of None \<Rightarrow> None
      | Some (name, val) \<Rightarrow> map_option (\<lambda>fs. name # val # fs) (headerFields ls))"

fun field :: "string \<Rightarrow> string list \<Rightarrow> string option" where
  "field name (k # v # rest) = (if toLowerCase k = name then Some v else field name rest)"
| "field name _ = None"

lemma takeLine_shorter: "takeLine bs = Some (l, r) \<Longrightarrow> length r < length bs"
  by (induction bs arbitrary: l rule: takeLine.induct) (auto split: if_splits option.splits)

text \<open>
  Chunked framing: a size in hexadecimal, CRLF, that many bytes, CRLF, repeated until the
  size 0, whose line is followed by the closing CRLF.
\<close>

function chunkedBody :: "Buffer \<Rightarrow> Buffer \<Rightarrow> parser_event list \<times> (error + nat)" where
  "chunkedBody raw rest =
     (case takeLine rest of
        None \<Rightarrow> ([], Inr (length raw))
      | Some (l, r) \<Rightarrow>
          (case parseHex (toString_utf8 l) 0 of
             None \<Rightarrow> ([], Inl (PlainError ''ParseError: chunk size''))
           | Some n \<Rightarrow>
               if l = [] then ([], Inl (PlainError ''ParseError: chunk size''))
               else if n = 0 then
                 (if length r < 2 then ([], Inr (length raw))
                  else if take 2 r = [13, 10]
                  then ([MessageComplete], Inr (length raw - length r + 2))
                  else ([], Inl (PlainError ''ParseError: chunk terminator'')))
               else if length r < n + 2 then
                 ((if r = [] then [] else [Body raw (length raw - length r) (min n (length r))]),
                  Inr (length raw))
               else if take 2 (drop n r) = [13, 10] then
                 (case chunkedBody raw (drop (n + 2) r) of
                    (evs, res) \<Rightarrow> (Body raw (length raw - length r) n # evs, res))
               else ([Body raw (length raw - length r) n], Inl (PlainError ''ParseError: chunk data''))))"
  by pat_completeness auto
termination
  by (relation "measure (\<lambda>(raw, rest). length rest)") (auto dest: takeLine_shorter)

declare chunkedBody.simps [simp del]

definition HTTPParser_run :: "Buffer \<Rightarrow> parser_event list \<times> (error + nat)" where
  "HTTPParser_run raw =
     (case takeLine raw of
        None \<Rightarrow> ([], Inr (length raw))
      | Some (first, afterFirst) \<Rightarrow>
          (case statusLine (toString_utf8 first) of
             None \<Rightarrow> ([], Inl (PlainError ''ParseError: status line''))
           | Some (code, reason) \<Rightarrow>
               (case headerBlock afterFirst [] [] of (ls, after) \<Rightarrow>
                 (case headerFields (map toString_utf8 ls) of
                    None \<Rightarrow> ([], Inl (PlainError ''ParseError: header line''))
                  | Some fs \<Rightarrow>
                      (case after of
                         None \<Rightarrow> ([], Inr (length raw))
                       | Some rest \<Rightarrow>
                           (let hc = HeadersComplete
                                  \<lparr>info.statusCode = code, statusMessage = Some reason,
                                     info.headers = fs\<rparr>;
                                off = length raw - length rest
                            in case field ''content-length'' fs of
                                 Some v \<Rightarrow>
                                   (case parseInt v of
                                      None \<Rightarrow> ([hc], Inl (PlainError ''ParseError: content-length''))
                                    | Some n \<Rightarrow>
                                        (hc # (if rest = [] \<or> n = 0 then []
                                               else [Body raw off (min n (length rest))])
                                            @ (if n \<le> length rest then [MessageComplete] else []),
                                         Inr (off + min n (length rest))))
                               | None \<Rightarrow>
                                   if map_option toLowerCase (field ''transfer-encoding'' fs)
                                        = Some ''chunked''
                                   then (case chunkedBody raw rest of
                                           (evs, res) \<Rightarrow> (hc # evs, res))
                                   else (hc # (if rest = [] then [] else [Body raw off (length rest)])
                                            @ [MessageComplete], Inr (length raw))))))))"

text \<open>
  The platform of the examples: the parser and the decoder above, a date parser that
  accepts no string (the examples give their times as numbers), and a network on which
  the port 80 answers, the port 81 refuses the connection and no other port answers.
\<close>

definition no_date :: "string \<Rightarrow> int option" where
  "no_date s = None"

definition port80 :: "nat \<Rightarrow> string \<Rightarrow> bool \<Rightarrow> answer" where
  "port80 prt hst tls =
     (if prt = 80 then Established
      else if prt = 81 then Refused (PlainError ''ECONNREFUSED'')
      else Silent)"

definition node :: env where
  "node = \<lparr>HTTPParser = HTTPParser_run, Buffer_toString = toString_utf8,
     Date_parse = no_date, network = port80\<rparr>"

section \<open>Vocabulary of the properties\<close>

text \<open>
  The two byte sequences that \<^verbatim>\<open>sendHeader\<close> writes: the request line with the header
  lines, and the empty row.
\<close>

abbreviation headerBytes :: "RequestOptions \<Rightarrow> Buffer" where
  "headerBytes opts \<equiv>
     Buffer_from (requestHead (requestHeaders opts) (the_method opts) (the_path opts))"

abbreviation terminatorBytes :: Buffer where
  "terminatorBytes \<equiv> Buffer_from emptyRow"

text \<open>The time for which a write is scheduled: a target time that is present and truthy.\<close>

definition scheduled :: "Time option \<Rightarrow> Time option" where
  "scheduled target =
     (case target of Some t \<Rightarrow> if truthy t then Some t else None | None \<Rightarrow> None)"

fun isTick :: "event \<Rightarrow> bool" where
  "isTick (Tick now) = True"
| "isTick _ = False"

text \<open>Intervals whose callbacks only write to the socket.\<close>

definition writers :: "conn interval list \<Rightarrow> bool" where
  "writers ts = list_all (\<lambda>iv. \<exists>d. callback iv = write_callback d) ts"



section \<open>Example inputs\<close>

text \<open>A callback that counts its calls, and one that counts and then throws.\<close>

definition count :: "nat \<Rightarrow> nat completion" where
  "count n = Normal (Suc n)"

definition count_and_throw :: "nat \<Rightarrow> nat completion" where
  "count_and_throw n = Thrown (PlainError ''thrown by the callback'') (Suc n)"

text \<open>
  A POST whose body, the word cafe with an accent on its last letter, is four code units and five
  bytes, with a target time of 100 ms.
\<close>

definition post_cafe :: RequestOptions where
  "post_cafe = \<lparr>host = ''localhost'', port = 80, method = Some ''POST'', path = None,
     RequestOptions.headers = None, RequestOptions.body = Some (''caf'' @ [CHR 0xE9]),
     targetTime = Some (TimeNumber (Finite 100)), https = None\<rparr>"


text \<open>A GET whose target time is the number 0.\<close>

definition get_zero :: RequestOptions where
  "get_zero = \<lparr>host = ''localhost'', port = 80, method = Some ''GET'', path = None,
     RequestOptions.headers = None, RequestOptions.body = None,
     targetTime = Some (TimeNumber (Finite 0)), https = None\<rparr>"


text \<open>Caller headers that differ from two default headers in letter case only.\<close>

definition get_lower_host :: RequestOptions where
  "get_lower_host = \<lparr>host = ''localhost'', port = 80, method = None, path = None,
     RequestOptions.headers = Some [(''host'', ''example.org''), (''Accept'', ''text/html'')],
     RequestOptions.body = None, targetTime = None, https = None\<rparr>"

text \<open>Caller headers of which one has the name of a default header, letter for letter.\<close>

definition get_override :: RequestOptions where
  "get_override = \<lparr>host = ''localhost'', port = 80, method = None, path = None,
     RequestOptions.headers = Some [(''X-Trace'', ''1''), (''Host'', ''example.org'')],
     RequestOptions.body = None, targetTime = None, https = None\<rparr>"

definition get_plain :: RequestOptions where
  "get_plain = \<lparr>host = ''localhost'', port = 80, method = None, path = None,
     RequestOptions.headers = None, RequestOptions.body = None, targetTime = None,
     https = None\<rparr>"

text \<open>A request over TLS to a port that refuses the connection.\<close>

definition get_refused :: RequestOptions where
  "get_refused = \<lparr>host = ''localhost'', port = 81, method = None, path = None,
     RequestOptions.headers = None, RequestOptions.body = None, targetTime = None,
     https = Some True\<rparr>"

text \<open>A request to a port that never answers.\<close>

definition get_silent :: RequestOptions where
  "get_silent = \<lparr>host = ''localhost'', port = 82, method = None, path = None,
     RequestOptions.headers = None, RequestOptions.body = None, targetTime = None,
     https = None\<rparr>"

text \<open>
  The response \<^verbatim>\<open>HTTP/1.1 200 OK\<close> with \<^verbatim>\<open>Content-Length: 2\<close> and the body
  \<^verbatim>\<open>OK\<close>, cut inside the name of its header; and bytes that are no HTTP response.
\<close>

definition ok_head :: Buffer where
  "ok_head = Buffer_from (''HTTP/1.1 200 OK'' @ CRLF @ ''Content-Len'')"

definition ok_tail :: Buffer where
  "ok_tail = Buffer_from (''gth: 2'' @ CRLF @ CRLF @ ''OK'')"

definition not_http :: Buffer where
  "not_http = Buffer_from (''NOT HTTP'' @ CRLF @ CRLF)"

section \<open>Properties of the scheduling primitive\<close>

lemma tick_single:
  "tick now \<lparr>app = s, timers = [iv]\<rparr> =
     (if reached now (targetTimeNumber iv)
      then (case callback iv s of
              Normal s' \<Rightarrow> \<lparr>app = s', timers = []\<rparr>
            | Thrown e s' \<Rightarrow> \<lparr>app = s', timers = [iv]\<rparr>)
      else \<lparr>app = s, timers = [iv]\<rparr>)"
  by (simp add: tick_def split: completion.splits)

lemma tick_idle: "tick now \<lparr>app = s, timers = []\<rparr> = \<lparr>app = s, timers = []\<rparr>"
  by (simp add: tick_def)

lemma ticks_idle: "fold tick nows \<lparr>app = s, timers = []\<rparr> = \<lparr>app = s, timers = []\<rparr>"
  by (induction nows) (simp_all add: tick_idle)

lemma ticks_early:
  "\<forall>now \<in> set nows. \<not> reached now (targetTimeNumber iv) \<Longrightarrow>
   fold tick nows \<lparr>app = s, timers = [iv]\<rparr> = \<lparr>app = s, timers = [iv]\<rparr>"
  by (induction nows) (simp_all add: tick_single)

lemma doOnTargetTime_fresh:
  "doOnTargetTime parse cb t \<lparr>app = s, timers = []\<rparr> =
     \<lparr>app = s, timers = [\<lparr>targetTimeNumber = Date_getTime parse t, callback = cb\<rparr>]\<rparr>"
  by (simp add: doOnTargetTime_def)

lemma trunc_of_int: "trunc (of_int t) = t"
  by (simp add: trunc_def)

lemma getTime_instant:
  assumes "Date_getTime parse target = Some T" and "instant parse target = Some q"
  shows "T = trunc q"
proof (cases target)
  case (TimeString str)
  then obtain t where "parse str = Some t" "q = of_int t"
    using assms(2) by auto
  then show ?thesis
    using assms(1) TimeString by (simp add: trunc_of_int split: if_splits)
next
  case (TimeNumber n)
  then show ?thesis
    using assms by (cases n) (simp_all split: if_splits)
next
  case (TimeDate d)
  then show ?thesis
    using assms by (auto simp: trunc_of_int)
qed

lemma trunc_bounds:
  "(0 \<le> q \<longrightarrow> of_int (trunc q) \<le> q \<and> q < of_int (trunc q) + 1)
   \<and> (q < 0 \<longrightarrow> q \<le> of_int (trunc q) \<and> of_int (trunc q) < q + 1)"
  by (simp add: trunc_def) linarith

text \<open>
  C2, as amended. Let \<^verbatim>\<open>doOnTargetTime(callback, targetTime)\<close> be called with a
  target time whose conversion \<^verbatim>\<open>new Date(targetTime).getTime()\<close> is the time value
  \<open>T\<close>, and with a callback that returns normally. Let the polling checks read the
  clock values \<open>early\<close>, all before \<open>T\<close>, then \<open>now\<close> with \<open>T \<le> now\<close>, then
  \<open>later\<close>. After the early checks the callback has not run and the interval is still
  armed; at the check reading \<open>now\<close> the callback has run exactly once and the interval
  is cleared; the later checks change nothing. \<open>T\<close> is the instant that the target time
  names truncated toward zero to whole milliseconds, so for a number with a fraction it
  differs from that instant by less than one millisecond. A target time that converts
  to NaN is the case of C10, and a callback that throws is left out.
\<close>

theorem doOnTargetTime_fires_once:
  assumes "Date_getTime parse target = Some T"
    and "\<forall>t \<in> set early. t < T"
    and "T \<le> now"
    and "cb s = Normal s'"
  shows "fold tick early (doOnTargetTime parse cb target \<lparr>app = s, timers = []\<rparr>) =
           \<lparr>app = s, timers = [\<lparr>targetTimeNumber = Some T, callback = cb\<rparr>]\<rparr>
       \<and> fold tick (early @ [now]) (doOnTargetTime parse cb target \<lparr>app = s, timers = []\<rparr>) =
           \<lparr>app = s', timers = []\<rparr>
       \<and> fold tick (early @ now # later) (doOnTargetTime parse cb target \<lparr>app = s, timers = []\<rparr>) =
           \<lparr>app = s', timers = []\<rparr>
       \<and> (\<forall>q. instant parse target = Some q \<longrightarrow>
            T = trunc q \<and> \<bar>q - of_int T\<bar> < 1)"
proof -
  let ?iv = "\<lparr>targetTimeNumber = Some T, callback = cb\<rparr>"
  have start: "doOnTargetTime parse cb target \<lparr>app = s, timers = []\<rparr> = \<lparr>app = s, timers = [?iv]\<rparr>"
    by (simp add: doOnTargetTime_fresh assms(1))
  have "\<forall>t \<in> set early. \<not> reached t (targetTimeNumber ?iv)"
    using assms(2) by (auto simp: reached_def)
  then have quiet: "fold tick early \<lparr>app = s, timers = [?iv]\<rparr> = \<lparr>app = s, timers = [?iv]\<rparr>"
    by (rule ticks_early)
  have fire: "tick now \<lparr>app = s, timers = [?iv]\<rparr> = \<lparr>app = s', timers = []\<rparr>"
    using assms(3,4) by (simp add: tick_single reached_def)
  have near: "\<forall>q. instant parse target = Some q \<longrightarrow> T = trunc q \<and> \<bar>q - of_int T\<bar> < 1"
  proof (intro allI impI)
    fix q
    assume "instant parse target = Some q"
    then have t: "T = trunc q"
      by (rule getTime_instant [OF assms(1)])
    show "T = trunc q \<and> \<bar>q - of_int T\<bar> < 1"
      using t trunc_bounds [of q] by (cases "0 \<le> q") auto
  qed
  have 1: "fold tick early (doOnTargetTime parse cb target \<lparr>app = s, timers = []\<rparr>) =
           \<lparr>app = s, timers = [?iv]\<rparr>"
    by (simp add: start quiet)
  have 2: "fold tick (early @ [now]) (doOnTargetTime parse cb target \<lparr>app = s, timers = []\<rparr>) =
           \<lparr>app = s', timers = []\<rparr>"
    by (simp add: start quiet fire)
  have 3: "fold tick (early @ now # later) (doOnTargetTime parse cb target \<lparr>app = s, timers = []\<rparr>) =
           \<lparr>app = s', timers = []\<rparr>"
    by (simp add: start quiet fire ticks_idle)
  show ?thesis
    using 1 2 3 near by (intro conjI)
qed

theorem doOnTargetTime_fires_once_witness:
  "fold tick [98, 99] (doOnTargetTime no_date count (TimeNumber (Finite 100)) \<lparr>app = 0, timers = []\<rparr>) =
       \<lparr>app = 0, timers = [\<lparr>targetTimeNumber = Some 100, callback = count\<rparr>]\<rparr>
   \<and> fold tick ([98, 99] @ [100]) (doOnTargetTime no_date count (TimeNumber (Finite 100)) \<lparr>app = 0, timers = []\<rparr>) =
       \<lparr>app = Suc 0, timers = []\<rparr>
   \<and> fold tick ([98, 99] @ 100 # [101, 250]) (doOnTargetTime no_date count (TimeNumber (Finite 100)) \<lparr>app = 0, timers = []\<rparr>) =
       \<lparr>app = Suc 0, timers = []\<rparr>"
proof -
  have target: "Date_getTime no_date (TimeNumber (Finite 100)) = Some 100"
    by code_simp
  have early: "\<forall>t \<in> set [98, 99 :: int]. t < 100"
    by simp
  have late: "(100 :: int) \<le> 100"
    by simp
  have normal: "count 0 = Normal (Suc 0)"
    by (simp add: count_def)
  note fires = doOnTargetTime_fires_once
    [where cb = count and s = "0::nat" and s' = "Suc 0" and later = "[101, 250]",
     OF target early late normal]
  show ?thesis
    by (intro conjI)
       (rule fires [THEN conjunct1],
        rule fires [THEN conjunct2, THEN conjunct1],
        rule fires [THEN conjunct2, THEN conjunct2, THEN conjunct1])
qed

lemma throwing_callback_runs_again:
  "fold tick [100, 101]
     (doOnTargetTime no_date count_and_throw (TimeNumber (Finite 100)) \<lparr>app = 0, timers = []\<rparr>) =
     \<lparr>app = 2, timers = [\<lparr>targetTimeNumber = Some 100, callback = count_and_throw\<rparr>]\<rparr>"
proof -
  have g: "Date_getTime no_date (TimeNumber (Finite 100)) = Some 100"
    by code_simp
  have "doOnTargetTime no_date count_and_throw (TimeNumber (Finite 100)) \<lparr>app = 0, timers = []\<rparr> =
      \<lparr>app = 0, timers = [\<lparr>targetTimeNumber = Some 100, callback = count_and_throw\<rparr>]\<rparr>"
    by (simp only: doOnTargetTime_fresh g)
  then show ?thesis
    by (simp add: tick_single reached_def count_and_throw_def)
qed

lemma invalid_date_never_runs:
  "fold tick [0, 8640000000000000]
     (doOnTargetTime no_date count (TimeDate None) \<lparr>app = 0, timers = []\<rparr>) =
     \<lparr>app = 0, timers = [\<lparr>targetTimeNumber = None, callback = count\<rparr>]\<rparr>"
  by (simp add: doOnTargetTime_fresh tick_single reached_def)

text \<open>
  C2 as stated fails in three ways. For a target time with a fraction, 100.7, the
  conversion is 100 and the callback runs at the check that reads 100, which is earlier
  than the target time. For a target time that converts to NaN, an invalid Date, the
  callback has not run after checks up to the end of the range of time values. And a
  callback that throws leaves the interval armed: after the checks reading 100 and 101
  it has run twice.
\<close>

theorem scheduling_counterexample:
  "instant no_date (TimeNumber (Finite (1007 / 10))) = Some (1007 / 10)
   \<and> of_int 100 < (1007 / 10 :: rat)
   \<and> fold tick [100]
        (doOnTargetTime no_date count (TimeNumber (Finite (1007 / 10))) \<lparr>app = 0, timers = []\<rparr>) =
       \<lparr>app = Suc 0, timers = []\<rparr>
   \<and> fold tick [0, 8640000000000000]
        (doOnTargetTime no_date count (TimeDate None) \<lparr>app = 0, timers = []\<rparr>) =
       \<lparr>app = 0, timers = [\<lparr>targetTimeNumber = None, callback = count\<rparr>]\<rparr>
   \<and> fold tick [100, 101]
        (doOnTargetTime no_date count_and_throw (TimeNumber (Finite 100)) \<lparr>app = 0, timers = []\<rparr>) =
       \<lparr>app = 2, timers = [\<lparr>targetTimeNumber = Some 100, callback = count_and_throw\<rparr>]\<rparr>"
proof -
  have g: "Date_getTime no_date (TimeNumber (Finite (1007 / 10))) = Some 100"
    by code_simp
  have i: "instant no_date (TimeNumber (Finite (1007 / 10))) = Some (1007 / 10)"
    by simp
  have l: "of_int 100 < (1007 / 10 :: rat)"
    by simp
  have "doOnTargetTime no_date count (TimeNumber (Finite (1007 / 10))) \<lparr>app = 0, timers = []\<rparr> =
      \<lparr>app = 0, timers = [\<lparr>targetTimeNumber = Some 100, callback = count\<rparr>]\<rparr>"
    by (simp only: doOnTargetTime_fresh g)
  then have f: "fold tick [100]
        (doOnTargetTime no_date count (TimeNumber (Finite (1007 / 10))) \<lparr>app = 0, timers = []\<rparr>) =
       \<lparr>app = Suc 0, timers = []\<rparr>"
    by (simp add: tick_single reached_def count_def)
  show ?thesis
    using i l f invalid_date_never_runs throwing_callback_runs_again by (intro conjI)
qed

text \<open>
  C10. When the conversion of the target time yields NaN, no polling check ever runs
  the callback, and the interval stays armed after any number of checks.
\<close>

theorem doOnTargetTime_NaN_never_fires:
  assumes "Date_getTime parse target = None"
  shows "fold tick nows (doOnTargetTime parse cb target \<lparr>app = s, timers = []\<rparr>) =
           \<lparr>app = s, timers = [\<lparr>targetTimeNumber = None, callback = cb\<rparr>]\<rparr>"
proof -
  let ?iv = "\<lparr>targetTimeNumber = None, callback = cb\<rparr>"
  have "\<forall>t \<in> set nows. \<not> reached t (targetTimeNumber ?iv)"
    by (simp add: reached_def)
  then have "fold tick nows \<lparr>app = s, timers = [?iv]\<rparr> = \<lparr>app = s, timers = [?iv]\<rparr>"
    by (rule ticks_early)
  then show ?thesis
    by (simp add: doOnTargetTime_fresh assms)
qed

theorem doOnTargetTime_NaN_never_fires_witness:
  "fold tick [0, 1000, 8640000000000000]
     (doOnTargetTime (\<lambda>_. None) count (TimeString ''not a date'') \<lparr>app = 0, timers = []\<rparr>) =
     \<lparr>app = 0, timers = [\<lparr>targetTimeNumber = None, callback = count\<rparr>]\<rparr>"
  using doOnTargetTime_NaN_never_fires
    [of "\<lambda>_. None" "TimeString ''not a date''" "[0, 1000, 8640000000000000]" count "0::nat"]
  by simp

section \<open>The event loop of one request\<close>

lemma fold_poll:
  "writers ts \<Longrightarrow>
   fold (poll now) ts (s, acc) =
     (fold (\<lambda>iv s. if reached now (targetTimeNumber iv) then completed (callback iv s) else s)
        ts s,
      acc @ filter (\<lambda>iv. \<not> reached now (targetTimeNumber iv)) ts)"
  by (induction ts arbitrary: s acc) (auto simp: writers_def write_callback_def)

lemma timers_tick:
  "writers (timers w) \<Longrightarrow>
   timers (tick now w) = filter (\<lambda>iv. \<not> reached now (targetTimeNumber iv)) (timers w)"
  by (simp add: tick_def fold_poll)

lemma app_tick:
  "writers (timers w) \<Longrightarrow>
   app (tick now w) =
     fold (\<lambda>iv s. if reached now (targetTimeNumber iv) then completed (callback iv s) else s)
       (timers w) (app w)"
  by (simp add: tick_def fold_poll)

lemma writers_filter: "writers ts \<Longrightarrow> writers (filter P ts)"
  by (induction ts) (simp_all add: writers_def)

lemma writer_inbox:
  assumes "callback iv = write_callback d"
  shows "promise (completed (callback iv c)) = promise c"
    and "responseData (completed (callback iv c)) = responseData c"
    and "ended (completed (callback iv c)) = ended c"
    and "listening (completed (callback iv c)) = listening c"
  by (simp_all add: assms write_callback_def socket_write_def)

lemma writers_fold_inbox:
  "writers ts \<Longrightarrow>
   promise (fold (\<lambda>iv s. if P iv then completed (callback iv s) else s) ts c) = promise c
   \<and> responseData (fold (\<lambda>iv s. if P iv then completed (callback iv s) else s) ts c) =
       responseData c
   \<and> ended (fold (\<lambda>iv s. if P iv then completed (callback iv s) else s) ts c) = ended c
   \<and> listening (fold (\<lambda>iv s. if P iv then completed (callback iv s) else s) ts c) =
       listening c"
proof (induction ts arbitrary: c)
  case Nil
  show ?case by simp
next
  case (Cons iv ts)
  from Cons.prems obtain d where d: "callback iv = write_callback d" and ts: "writers ts"
    by (auto simp: writers_def)
  note ih = Cons.IH [OF ts]
  show ?case
    by (cases "P iv") (simp_all add: ih writer_inbox [OF d])
qed

lemma step_writers: "writers (timers w) \<Longrightarrow> writers (timers (step rt ev w))"
  by (cases ev) (simp_all add: timers_tick writers_filter)

lemma run_writers: "writers (timers w) \<Longrightarrow> writers (timers (run rt evs w))"
  unfolding run_def by (induction evs arbitrary: w) (simp_all add: step_writers)

lemma step_settled:
  "writers (timers w) \<Longrightarrow> promise (app w) = Some r \<Longrightarrow> promise (app (step rt ev w)) = Some r"
  by (cases ev)
     (simp_all add: on_data_def on_error_def settle_def socket_end_def app_tick writers_fold_inbox)

lemma run_settled:
  "writers (timers w) \<Longrightarrow> promise (app w) = Some r \<Longrightarrow> promise (app (run rt evs w)) = Some r"
  unfolding run_def
  by (induction evs arbitrary: w) (simp_all add: step_settled step_writers)

lemma step_tick_inbox:
  "writers (timers w) \<Longrightarrow> isTick ev \<Longrightarrow>
   promise (app (step rt ev w)) = promise (app w)
   \<and> responseData (app (step rt ev w)) = responseData (app w)
   \<and> ended (app (step rt ev w)) = ended (app w)
   \<and> listening (app (step rt ev w)) = listening (app w)"
  by (cases ev) (simp_all add: app_tick writers_fold_inbox)

lemma run_ticks_inbox:
  "writers (timers w) \<Longrightarrow> list_all isTick evs \<Longrightarrow>
   promise (app (run rt evs w)) = promise (app w)
   \<and> responseData (app (run rt evs w)) = responseData (app w)
   \<and> ended (app (run rt evs w)) = ended (app w)
   \<and> listening (app (run rt evs w)) = listening (app w)"
  unfolding run_def
  by (induction evs arbitrary: w) (simp_all add: step_tick_inbox step_writers)

lemma run_append: "run rt (xs @ ys) w = run rt ys (run rt xs w)"
  by (simp add: run_def)

lemma run_Cons: "run rt (x # xs) w = run rt xs (step rt x w)"
  by (simp add: run_def)

lemma request_writers: "writers (timers (request rt opts))"
  by (auto simp: request_def sendHeader_def sendBody_def doOnTargetTime_def writers_def Let_def
           split: sum.splits option.splits)

lemma connect_ok:
  "network rt prt hst tls = Established \<Longrightarrow> connect rt prt hst tls = Some (Inr ())"
  by (simp add: connect_def)

lemma request_inbox_connected:
  "network rt (port opts) (host opts) (the_https opts) = Established \<Longrightarrow>
   promise (app (request rt opts)) = None \<and> responseData (app (request rt opts)) = []
   \<and> ended (app (request rt opts)) = 0 \<and> listening (app (request rt opts))"
  by (auto simp: request_def connect_ok sendHeader_def sendBody_def doOnTargetTime_def Let_def
        socket0_def socket_write_def split: option.splits)

lemma step_idle:
  "timers w = [] \<Longrightarrow>
   timers (step rt ev w) = [] \<and> written (app (step rt ev w)) = written (app w)"
  by (cases ev)
     (simp_all add: on_data_def on_error_def settle_def socket_end_def Let_def tick_def
        split: option.splits)

lemma run_idle:
  "timers w = [] \<Longrightarrow>
   timers (run rt evs w) = [] \<and> written (app (run rt evs w)) = written (app w)"
  unfolding run_def by (induction evs arbitrary: w) (simp_all add: step_idle)

lemma request_refused:
  assumes "network rt (port opts) (host opts) (the_https opts) = Refused e"
  shows "request rt opts = \<lparr>app = unconnected\<lparr>promise := Some (Rejected e)\<rparr>, timers = []\<rparr>"
  using assms by (simp add: request_def connect_def settle_def unconnected_def)

text \<open>
  A connection attempt that is never answered: nothing is written and the promise stays
  pending, whatever the timers do.
\<close>

lemma request_silent:
  assumes "network rt (port opts) (host opts) (the_https opts) = Silent"
  shows "run rt evs (request rt opts) = \<lparr>app = unconnected, timers = []\<rparr>"
proof -
  have stay: "step rt ev \<lparr>app = unconnected, timers = []\<rparr> = \<lparr>app = unconnected, timers = []\<rparr>"
    for ev
    by (cases ev) (simp_all add: unconnected_def tick_idle)
  have "fold (step rt) evs \<lparr>app = unconnected, timers = []\<rparr> = \<lparr>app = unconnected, timers = []\<rparr>"
    by (induction evs) (simp_all add: stay)
  then show ?thesis
    using assms by (simp add: request_def connect_def run_def)
qed

section \<open>Objects, buffers and the header block\<close>

lemma map_of_obj_set: "map_of (obj_set k v ps) k' = (if k' = k then Some v else map_of ps k')"
  by (induction ps) auto

lemma keys_list_obj_set:
  "map fst (obj_set k v ps) = (if k \<in> fst ` set ps then map fst ps else map fst ps @ [k])"
  by (induction ps) (force simp: image_iff)+

lemma keys_obj_set: "fst ` set (obj_set k v ps) = insert k (fst ` set ps)"
proof -
  have "set (map fst (obj_set k v ps)) = insert k (set (map fst ps))"
    unfolding keys_list_obj_set by auto
  then show ?thesis by simp
qed

lemma distinct_obj_set: "distinct (map fst ps) \<Longrightarrow> distinct (map fst (obj_set k v ps))"
  unfolding keys_list_obj_set by auto

lemma map_of_fold_obj_set:
  "map_of (fold (\<lambda>p. obj_set (fst p) (snd p)) es ob) k =
     (case map_of (rev es) k of Some v \<Rightarrow> Some v | None \<Rightarrow> map_of ob k)"
  by (induction es arbitrary: ob) (auto simp: map_of_obj_set map_add_def split: option.splits)

lemma keys_fold_obj_set:
  "fst ` set (fold (\<lambda>p. obj_set (fst p) (snd p)) es ob) = fst ` set ob \<union> fst ` set es"
  by (induction es arbitrary: ob) (auto simp: keys_obj_set)

lemma distinct_fold_obj_set:
  "distinct (map fst ob) \<Longrightarrow> distinct (map fst (fold (\<lambda>p. obj_set (fst p) (snd p)) es ob))"
  by (induction es arbitrary: ob) (simp_all add: distinct_obj_set)

lemma set_Object_entries: "set (Object_entries ob) = set ob"
  by (auto simp: Object_entries_def)

lemma distinct_Object_entries:
  assumes "distinct (map fst ob)"
  shows "distinct (map fst (Object_entries ob))"
proof -
  have d: "distinct ob" using assms by (rule distinct_map [THEN iffD1, THEN conjunct1])
  have i: "inj_on fst (set ob)" using assms by (simp add: distinct_map)
  have "distinct (Object_entries ob)"
    using d by (auto simp: Object_entries_def)
  moreover have "inj_on fst (set (Object_entries ob))"
    using i by (simp add: set_Object_entries)
  ultimately show ?thesis by (simp add: distinct_map)
qed

lemma map_of_Object_entries:
  "distinct (map fst ob) \<Longrightarrow> map_of (Object_entries ob) = map_of ob"
  by (simp add: map_of_inject_set distinct_Object_entries set_Object_entries)

lemma map_of_rev_distinct: "distinct (map fst es) \<Longrightarrow> map_of (rev es) = map_of es"
  by (simp add: map_of_inject_set rev_map [symmetric])

lemma map_of_spread:
  assumes "distinct (map fst src)"
  shows "map_of (spread ob src) k =
           (case map_of src k of Some v \<Rightarrow> Some v | None \<Rightarrow> map_of ob k)"
proof -
  have "map_of (rev (Object_entries src)) = map_of src"
    using assms
    by (simp add: map_of_rev_distinct distinct_Object_entries map_of_Object_entries)
  then show ?thesis
    by (simp add: spread_def map_of_fold_obj_set)
qed

lemma keys_spread: "fst ` set (spread ob src) = fst ` set ob \<union> fst ` set src"
  by (simp add: spread_def keys_fold_obj_set set_Object_entries)

lemma distinct_spread: "distinct (map fst ob) \<Longrightarrow> distinct (map fst (spread ob src))"
  by (simp add: spread_def distinct_fold_obj_set)

lemma distinct_requestHeaders: "distinct (map fst (requestHeaders opts))"
  by (simp add: requestHeaders_def Let_def distinct_obj_set distinct_spread defaultHeaders_def)





lemma slice_last:
  "b \<noteq> [] \<Longrightarrow> subarray b 0 (length b - 1) = butlast b
     \<and> subarray b (length b - 1) (length b) = [last b]"
  by (cases b rule: rev_cases) (simp_all add: subarray_def)

lemma chunks_body:
  "Buffer_from bdy \<noteq> [] \<Longrightarrow>
   baseChunk bdy = butlast (Buffer_from bdy) \<and> endChunk bdy = [last (Buffer_from bdy)]"
  using slice_last [of "Buffer_from bdy"]
  by (simp add: baseChunk_def endChunk_def Let_def)


lemma Buffer_from_nonempty: "s \<noteq> [] \<Longrightarrow> Buffer_from s \<noteq> []"
  by (cases s) (simp_all add: Buffer_from_def utf8_def Let_def)

section \<open>What request writes and schedules\<close>

lemma request_shape:
  assumes "network rt (port opts) (host opts) (the_https opts) = Established"
  shows "request rt opts =
     (if isHasBodyRequest opts then
        (case scheduled (targetTime opts) of
           Some t \<Rightarrow>
             \<lparr>app = socket0\<lparr>written := [headerBytes opts, terminatorBytes, baseChunk (the_body opts)]\<rparr>,
              timers = [\<lparr>targetTimeNumber = Date_getTime (Date_parse rt) t,
                         callback = write_callback (endChunk (the_body opts))\<rparr>]\<rparr>
         | None \<Rightarrow>
             \<lparr>app = socket0\<lparr>written := [headerBytes opts, terminatorBytes,
                                         baseChunk (the_body opts), endChunk (the_body opts)]\<rparr>,
              timers = []\<rparr>)
      else
        (case scheduled (targetTime opts) of
           Some t \<Rightarrow>
             \<lparr>app = socket0\<lparr>written := [headerBytes opts]\<rparr>,
              timers = [\<lparr>targetTimeNumber = Date_getTime (Date_parse rt) t,
                         callback = write_callback terminatorBytes\<rparr>]\<rparr>
         | None \<Rightarrow>
             \<lparr>app = socket0\<lparr>written := [headerBytes opts, terminatorBytes]\<rparr>, timers = []\<rparr>))"
  using connect_ok [OF assms]
  by (simp add: request_def sendHeader_def sendBody_def doOnTargetTime_def scheduled_def
        socket_write_def socket0_def Let_def split: option.splits)









lemma scheduled_write:
  assumes "w = \<lparr>app = c, timers = [\<lparr>targetTimeNumber = T, callback = write_callback e\<rparr>]\<rparr>"
    and "\<forall>x \<in> set early. \<not> reached x T"
    and "reached now T"
  shows "written (app (fold tick early w)) = written c"
    and "written (app (fold tick (early @ [now]) w)) = written c @ [e]"
proof -
  let ?w = "\<lparr>app = c, timers = [\<lparr>targetTimeNumber = T, callback = write_callback e\<rparr>]\<rparr>"
  have quiet: "fold tick early ?w = ?w"
    using assms(2) by (intro ticks_early) simp
  show "written (app (fold tick early w)) = written c"
    unfolding assms(1) by (simp add: quiet)
  show "written (app (fold tick (early @ [now]) w)) = written c @ [e]"
    unfolding assms(1) using assms(3)
    by (simp add: quiet tick_single write_callback_def socket_write_def)
qed




lemma parseResponse_silent:
  "fst (HTTPParser rt raw) = [] \<Longrightarrow>
   parseResponse rt raw =
     \<lparr>HttpResponse.statusCode = 0, statusText = [], headers = [], body = []\<rparr>"
  by (simp add: parseResponse_def parsed_def response0_def)

section \<open>The claims about sending\<close>

text \<open>
  C1, as amended. When the connection is established, \<^verbatim>\<open>request\<close> leaves the
  event loop in this state. With no body to send and a target time that is present and
  truthy (a Date, a non-empty string, a number other than 0 and NaN), the header bytes
  are written and the writing of the terminator is scheduled for the target time. With a
  body to send, the header bytes, the terminator and all body bytes but the last are
  written, and the last byte is written too unless the target time is present and truthy,
  in which case its writing is scheduled. A target time that is absent or falsy
  schedules nothing: every part is written at once. A scheduled write is not made
  while the polling checks read the clock before the target time, and it is made at the
  first check that reaches it.
\<close>

theorem request_delivery:
  assumes "network rt (port opts) (host opts) (the_https opts) = Established"
  shows "request rt opts =
     (if isHasBodyRequest opts then
        (case scheduled (targetTime opts) of
           Some t \<Rightarrow>
             \<lparr>app = socket0\<lparr>written := [headerBytes opts, terminatorBytes, baseChunk (the_body opts)]\<rparr>,
              timers = [\<lparr>targetTimeNumber = Date_getTime (Date_parse rt) t,
                         callback = write_callback (endChunk (the_body opts))\<rparr>]\<rparr>
         | None \<Rightarrow>
             \<lparr>app = socket0\<lparr>written := [headerBytes opts, terminatorBytes,
                                         baseChunk (the_body opts), endChunk (the_body opts)]\<rparr>,
              timers = []\<rparr>)
      else
        (case scheduled (targetTime opts) of
           Some t \<Rightarrow>
             \<lparr>app = socket0\<lparr>written := [headerBytes opts]\<rparr>,
              timers = [\<lparr>targetTimeNumber = Date_getTime (Date_parse rt) t,
                         callback = write_callback terminatorBytes\<rparr>]\<rparr>
         | None \<Rightarrow>
             \<lparr>app = socket0\<lparr>written := [headerBytes opts, terminatorBytes]\<rparr>, timers = []\<rparr>))
   \<and> (isHasBodyRequest opts \<longrightarrow>
        baseChunk (the_body opts) = butlast (Buffer_from (the_body opts))
        \<and> endChunk (the_body opts) = [last (Buffer_from (the_body opts))])
   \<and> (\<forall>t early now. scheduled (targetTime opts) = Some t
        \<and> (\<forall>x \<in> set early. \<not> reached x (Date_getTime (Date_parse rt) t))
        \<and> reached now (Date_getTime (Date_parse rt) t) \<longrightarrow>
          written (app (fold tick early (request rt opts))) = written (app (request rt opts))
          \<and> written (app (fold tick (early @ [now]) (request rt opts))) =
              written (app (request rt opts))
              @ [if isHasBodyRequest opts then endChunk (the_body opts) else terminatorBytes])"
proof (intro conjI)
  note shape = request_shape [OF assms]
  show "request rt opts =
     (if isHasBodyRequest opts then
        (case scheduled (targetTime opts) of
           Some t \<Rightarrow>
             \<lparr>app = socket0\<lparr>written := [headerBytes opts, terminatorBytes, baseChunk (the_body opts)]\<rparr>,
              timers = [\<lparr>targetTimeNumber = Date_getTime (Date_parse rt) t,
                         callback = write_callback (endChunk (the_body opts))\<rparr>]\<rparr>
         | None \<Rightarrow>
             \<lparr>app = socket0\<lparr>written := [headerBytes opts, terminatorBytes,
                                         baseChunk (the_body opts), endChunk (the_body opts)]\<rparr>,
              timers = []\<rparr>)
      else
        (case scheduled (targetTime opts) of
           Some t \<Rightarrow>
             \<lparr>app = socket0\<lparr>written := [headerBytes opts]\<rparr>,
              timers = [\<lparr>targetTimeNumber = Date_getTime (Date_parse rt) t,
                         callback = write_callback terminatorBytes\<rparr>]\<rparr>
         | None \<Rightarrow>
             \<lparr>app = socket0\<lparr>written := [headerBytes opts, terminatorBytes]\<rparr>, timers = []\<rparr>))"
    by (rule shape)
  show "isHasBodyRequest opts \<longrightarrow>
        baseChunk (the_body opts) = butlast (Buffer_from (the_body opts))
        \<and> endChunk (the_body opts) = [last (Buffer_from (the_body opts))]"
    by (simp add: isHasBodyRequest_def chunks_body Buffer_from_nonempty)
  show "\<forall>t early now. scheduled (targetTime opts) = Some t
        \<and> (\<forall>x \<in> set early. \<not> reached x (Date_getTime (Date_parse rt) t))
        \<and> reached now (Date_getTime (Date_parse rt) t) \<longrightarrow>
          written (app (fold tick early (request rt opts))) = written (app (request rt opts))
          \<and> written (app (fold tick (early @ [now]) (request rt opts))) =
              written (app (request rt opts))
              @ [if isHasBodyRequest opts then endChunk (the_body opts) else terminatorBytes]"
  proof (intro allI impI, elim conjE)
    fix t early now
    assume s: "scheduled (targetTime opts) = Some t"
      and e: "\<forall>x \<in> set early. \<not> reached x (Date_getTime (Date_parse rt) t)"
      and n: "reached now (Date_getTime (Date_parse rt) t)"
    let ?e = "if isHasBodyRequest opts then endChunk (the_body opts) else terminatorBytes"
    have w: "request rt opts = \<lparr>app = app (request rt opts),
        timers = [\<lparr>targetTimeNumber = Date_getTime (Date_parse rt) t, callback = write_callback ?e\<rparr>]\<rparr>"
      using shape s by (simp split: if_splits)
    show "written (app (fold tick early (request rt opts))) = written (app (request rt opts))
          \<and> written (app (fold tick (early @ [now]) (request rt opts))) =
              written (app (request rt opts)) @ [?e]"
      using scheduled_write [OF w e n] by blast
  qed
qed

theorem request_delivery_witness:
  "request node post_cafe =
     \<lparr>app = socket0\<lparr>written := [headerBytes post_cafe, terminatorBytes, [99, 97, 102, 195]]\<rparr>,
      timers = [\<lparr>targetTimeNumber = Some 100, callback = write_callback [169]\<rparr>]\<rparr>
   \<and> written (app (fold tick [98, 99] (request node post_cafe))) =
       [headerBytes post_cafe, terminatorBytes, [99, 97, 102, 195]]
   \<and> written (app (fold tick ([98, 99] @ [100]) (request node post_cafe))) =
       [headerBytes post_cafe, terminatorBytes, [99, 97, 102, 195], [169]]"
proof -
  have c: "network node (port post_cafe) (host post_cafe) (the_https post_cafe) = Established"
    by code_simp
  have b: "isHasBodyRequest post_cafe"
    by code_simp
  have s: "scheduled (targetTime post_cafe) = Some (TimeNumber (Finite 100))"
    by code_simp
  have g: "Date_getTime (Date_parse node) (TimeNumber (Finite 100)) = Some 100"
    by code_simp
  have early: "\<forall>x \<in> set [98, 99]. \<not> reached x (Some 100)"
    by (simp add: reached_def)
  have now: "reached 100 (Some 100)"
    by (simp add: reached_def)
  have bc: "baseChunk (the_body post_cafe) = [99, 97, 102, 195]"
    by code_simp
  have ec: "endChunk (the_body post_cafe) = [169]"
    by code_simp
  note d = request_delivery [OF c]
  have 1: "request node post_cafe =
     \<lparr>app = socket0\<lparr>written := [headerBytes post_cafe, terminatorBytes, [99, 97, 102, 195]]\<rparr>,
      timers = [\<lparr>targetTimeNumber = Some 100, callback = write_callback [169]\<rparr>]\<rparr>"
    using d by (simp add: b s g bc ec trunc_def)
  have 0: "written (app (request node post_cafe)) =
       [headerBytes post_cafe, terminatorBytes, [99, 97, 102, 195]]"
    by (simp add: 1 socket0_def)
  have pre: "scheduled (targetTime post_cafe) = Some (TimeNumber (Finite 100))
      \<and> (\<forall>x \<in> set [98, 99].
            \<not> reached x (Date_getTime (Date_parse node) (TimeNumber (Finite 100))))
      \<and> reached 100 (Date_getTime (Date_parse node) (TimeNumber (Finite 100)))"
    unfolding g using s early now by (intro conjI)
  have "written (app (fold tick [98, 99] (request node post_cafe))) =
          written (app (request node post_cafe))
        \<and> written (app (fold tick ([98, 99] @ [100]) (request node post_cafe))) =
          written (app (request node post_cafe))
          @ [if isHasBodyRequest post_cafe then endChunk (the_body post_cafe)
             else terminatorBytes]"
    by (rule d [THEN conjunct2, THEN conjunct2, rule_format, OF pre])
  then have 2: "written (app (fold tick [98, 99] (request node post_cafe))) =
       [headerBytes post_cafe, terminatorBytes, [99, 97, 102, 195]]"
    and 3: "written (app (fold tick ([98, 99] @ [100]) (request node post_cafe))) =
       [headerBytes post_cafe, terminatorBytes, [99, 97, 102, 195], [169]]"
    unfolding 0 ec using b by simp_all
  show ?thesis
    using 1 2 3 by (intro conjI)
qed

text \<open>
  C1 as stated fails when the target time is set to a falsy value: with the number 0
  and no body to send, the terminator is written at once and no write is scheduled.
\<close>

theorem falsy_targetTime_counterexample:
  "targetTime get_zero = Some (TimeNumber (Finite 0))
   \<and> \<not> isHasBodyRequest get_zero
   \<and> request node get_zero =
       \<lparr>app = socket0\<lparr>written := [headerBytes get_zero, terminatorBytes]\<rparr>, timers = []\<rparr>
   \<and> requestHead (requestHeaders get_zero) (the_method get_zero) (the_path get_zero) =
       ''GET / HTTP/1.1'' @ CRLF @ ''Host: localhost'' @ CRLF @ ''Connection: keep-alive'' @ CRLF
       @ ''accept: application/json''"
proof -
  have c: "network node (port get_zero) (host get_zero) (the_https get_zero) = Established"
    by code_simp
  have t: "targetTime get_zero = Some (TimeNumber (Finite 0))"
    by code_simp
  have b: "\<not> isHasBodyRequest get_zero"
    by code_simp
  have s: "scheduled (targetTime get_zero) = None"
    by code_simp
  have h: "requestHead (requestHeaders get_zero) (the_method get_zero) (the_path get_zero) =
       ''GET / HTTP/1.1'' @ CRLF @ ''Host: localhost'' @ CRLF @ ''Connection: keep-alive'' @ CRLF
       @ ''accept: application/json''"
    by code_simp
  have r: "request node get_zero =
       \<lparr>app = socket0\<lparr>written := [headerBytes get_zero, terminatorBytes]\<rparr>, timers = []\<rparr>"
    using request_shape [OF c] by (simp add: b s)
  show ?thesis
    using t b r h by blast
qed







text \<open>
  C7, as amended. The header block merges the default headers Host,
  Connection: keep-alive and accept: application/json with the caller's headers. Names
  are compared letter for letter: for a name other than Content-Length, the value sent
  is the caller's when the caller supplied that very name, and the default's otherwise;
  every name of the caller is sent as the caller wrote it.
\<close>

theorem header_merge:
  assumes "distinct (map fst (the_headers opts))"
    and "k \<noteq> ''Content-Length''"
  shows "map_of (Object_entries (requestHeaders opts)) k =
           (case map_of (the_headers opts) k of
              Some v \<Rightarrow> Some v
            | None \<Rightarrow> map_of (defaultHeaders opts) k)
       \<and> fst ` set (Object_entries (requestHeaders opts)) =
           {''Host'', ''Connection'', ''accept''} \<union> fst ` set (the_headers opts)
           \<union> (if isHasBodyRequest opts then {''Content-Length''} else {})"
proof -
  have "map_of (requestHeaders opts) k =
          (case map_of (the_headers opts) k of
              Some v \<Rightarrow> Some v
            | None \<Rightarrow> map_of (defaultHeaders opts) k)"
    using assms by (simp add: requestHeaders_def Let_def map_of_obj_set map_of_spread)
  moreover have "fst ` set (requestHeaders opts) =
           {''Host'', ''Connection'', ''accept''} \<union> fst ` set (the_headers opts)
           \<union> (if isHasBodyRequest opts then {''Content-Length''} else {})"
    by (auto simp: requestHeaders_def Let_def keys_obj_set keys_spread defaultHeaders_def)
  ultimately show ?thesis
    by (simp add: map_of_Object_entries distinct_requestHeaders set_Object_entries)
qed

theorem header_merge_witness:
  "map_of (Object_entries (requestHeaders get_override)) ''Host'' = Some ''example.org''
   \<and> Object_entries (requestHeaders get_override) =
       [(''Host'', ''example.org''), (''Connection'', ''keep-alive''),
        (''accept'', ''application/json''), (''X-Trace'', ''1'')]"
proof -
  have d: "distinct (map fst (the_headers get_override))"
    by code_simp
  have k: "''Host'' \<noteq> ''Content-Length''"
    by simp
  have v: "(case map_of (the_headers get_override) ''Host'' of
              Some v \<Rightarrow> Some v
            | None \<Rightarrow> map_of (defaultHeaders get_override) ''Host'') = Some ''example.org''"
    by code_simp
  have 1: "map_of (Object_entries (requestHeaders get_override)) ''Host'' = Some ''example.org''"
    using header_merge [OF d k] v by simp
  have 2: "Object_entries (requestHeaders get_override) =
       [(''Host'', ''example.org''), (''Connection'', ''keep-alive''),
        (''accept'', ''application/json''), (''X-Trace'', ''1'')]"
    by code_simp
  show ?thesis
    using 1 2 by blast
qed

text \<open>
  C7 as stated fails on names that differ in letter case: the caller's \<^verbatim>\<open>host\<close> and
  \<^verbatim>\<open>Accept\<close> do not override the defaults \<^verbatim>\<open>Host\<close> and \<^verbatim>\<open>accept\<close>; all
  four lines are sent.
\<close>

theorem header_case_counterexample:
  "Object_entries (requestHeaders get_lower_host) =
     [(''Host'', ''localhost''), (''Connection'', ''keep-alive''),
      (''accept'', ''application/json''), (''host'', ''example.org''), (''Accept'', ''text/html'')]
   \<and> toLowerCase ''Host'' = toLowerCase ''host''
   \<and> toLowerCase ''accept'' = toLowerCase ''Accept''"
  by code_simp

section \<open>The claims about the outcome\<close>

text \<open>
  C8, as amended. When the socket of \<^verbatim>\<open>connect\<close> emits an error before the connection
  is established, with TLS or without as the options ask, the promise is rejected with
  that error itself, in no wrapper, and nothing is written, whatever events follow. When
  the connection is established, an error of the socket that no chunk and no other
  error precedes rejects the promise with that error itself.
\<close>

theorem request_rejections:
  "(network rt (port opts) (host opts) (the_https opts) = Refused cause \<longrightarrow>
      promise (app (run rt evs (request rt opts))) = Some (Rejected cause)
      \<and> written (app (run rt evs (request rt opts))) = [])
   \<and> (network rt (port opts) (host opts) (the_https opts) = Established \<and> list_all isTick pre \<longrightarrow>
      promise (app (run rt (pre @ Error e # post) (request rt opts))) = Some (Rejected e))"
proof (intro conjI impI)
  assume r: "network rt (port opts) (host opts) (the_https opts) = Refused cause"
  have "promise (app (request rt opts)) = Some (Rejected cause)"
    by (simp add: request_refused [OF r])
  then show "promise (app (run rt evs (request rt opts))) = Some (Rejected cause)"
    by (rule run_settled [OF request_writers])
  have "timers (request rt opts) = []" "written (app (request rt opts)) = []"
    by (simp_all add: request_refused [OF r] unconnected_def)
  then show "written (app (run rt evs (request rt opts))) = []"
    by (simp add: run_idle)
next
  assume a: "network rt (port opts) (host opts) (the_https opts) = Established \<and> list_all isTick pre"
  let ?w = "run rt pre (request rt opts)"
  have "promise (app (request rt opts)) = None" "listening (app (request rt opts))"
    using request_inbox_connected a by blast+
  then have "promise (app ?w) = None" "listening (app ?w)"
    using run_ticks_inbox [OF request_writers, of pre rt rt opts] a by simp_all
  then have "promise (app (step rt (Error e) ?w)) = Some (Rejected e)"
    by (simp add: on_error_def settle_def)
  moreover have "writers (timers (step rt (Error e) ?w))"
    by (intro step_writers run_writers request_writers)
  ultimately have "promise (app (run rt post (step rt (Error e) ?w))) = Some (Rejected e)"
    by (rule run_settled [rotated])
  then show "promise (app (run rt (pre @ Error e # post) (request rt opts))) = Some (Rejected e)"
    by (simp add: run_append run_Cons)
qed

theorem request_rejections_witness:
  "promise (app (run node [] (request node get_refused))) =
     Some (Rejected (PlainError ''ECONNREFUSED''))
   \<and> written (app (run node [] (request node get_refused))) = []
   \<and> promise (app (run node ([Tick 5] @ Error (PlainError ''ECONNRESET'') # [Data ok_tail])
        (request node get_plain))) = Some (Rejected (PlainError ''ECONNRESET''))"
proof -
  have r: "network node (port get_refused) (host get_refused) (the_https get_refused) =
      Refused (PlainError ''ECONNREFUSED'')"
    by code_simp
  have c: "network node (port get_plain) (host get_plain) (the_https get_plain) = Established
      \<and> list_all isTick [Tick 5]"
    by code_simp
  show ?thesis
    using request_rejections [of node get_refused "PlainError ''ECONNREFUSED''" "[]" "[Tick 5]"
        "PlainError ''ECONNRESET''" "[Data ok_tail]"]
      request_rejections [of node get_plain "PlainError ''ECONNREFUSED''" "[]" "[Tick 5]"
        "PlainError ''ECONNRESET''" "[Data ok_tail]"] r c
    by blast
qed

text \<open>
  C8 as stated fails in three ways. The rejection for a refused connection is the error
  of the platform itself, not a ConnectionError that carries it. An error of the socket
  that follows a first chunk holding no complete response does not reject the
  operation: the promise is already resolved, with the zero-valued response. And a
  connection attempt that is never answered does not fail: the promise is still pending
  after ticks at 30 and 60 seconds.
\<close>

theorem rejection_counterexample:
  "promise (app (run node [] (request node get_refused))) =
     Some (Rejected (PlainError ''ECONNREFUSED''))
   \<and> PlainError ''ECONNREFUSED'' \<noteq> ConnectionError (PlainError ''ECONNREFUSED'')
   \<and> fst (HTTPParser node ok_head) = []
   \<and> promise (app (run node [Data ok_head, Error (PlainError ''ECONNRESET'')]
        (request node get_plain))) =
     Some (Resolved \<lparr>HttpResponse.statusCode = 0, statusText = [], headers = [], body = []\<rparr>)
   \<and> network node (port get_silent) (host get_silent) (the_https get_silent) = Silent
   \<and> promise (app (run node [Tick 30000, Tick 60000] (request node get_silent))) = None"
  by code_simp

text \<open>
  C9. When the connection is established and no event of the socket precedes the first
  chunk, the promise is resolved at that chunk with the response parsed from that chunk
  alone and \<^verbatim>\<open>socket.end\<close> has been called once, not before; the events that follow
  do not change the value of the promise.
\<close>

theorem first_data_settles:
  assumes "network rt (port opts) (host opts) (the_https opts) = Established"
    and "list_all isTick pre"
  shows "promise (app (run rt (pre @ [Data chunk]) (request rt opts))) =
           Some (Resolved (parseResponse rt chunk))
       \<and> ended (app (run rt pre (request rt opts))) = 0
       \<and> ended (app (run rt (pre @ [Data chunk]) (request rt opts))) = 1
       \<and> promise (app (run rt (pre @ Data chunk # post) (request rt opts))) =
           Some (Resolved (parseResponse rt chunk))"
proof -
  let ?w = "run rt pre (request rt opts)"
  let ?w' = "step rt (Data chunk) ?w"
  have start: "promise (app (request rt opts)) = None"
    "responseData (app (request rt opts)) = []" "ended (app (request rt opts)) = 0"
    "listening (app (request rt opts))"
    using request_inbox_connected [OF assms(1)] by blast+
  have quiet: "promise (app ?w) = None" "responseData (app ?w) = []" "ended (app ?w) = 0"
    "listening (app ?w)"
    using run_ticks_inbox [OF request_writers assms(2), of rt rt opts] start by simp_all
  have p: "promise (app ?w') = Some (Resolved (parseResponse rt chunk))"
    and e: "ended (app ?w') = 1"
    using quiet by (simp_all add: on_data_def settle_def socket_end_def Let_def)
  have "writers (timers ?w')"
    by (intro step_writers run_writers request_writers)
  then have "promise (app (run rt post ?w')) = Some (Resolved (parseResponse rt chunk))"
    using p by (rule run_settled)
  then show ?thesis
    using p e quiet(3) by (simp add: run_append run_Cons run_def)
qed

theorem first_data_settles_witness:
  "promise (app (run node ([Tick 5] @ [Data ok_head]) (request node get_plain))) =
     Some (Resolved \<lparr>HttpResponse.statusCode = 0, statusText = [], headers = [], body = []\<rparr>)
   \<and> ended (app (run node ([Tick 5] @ [Data ok_head]) (request node get_plain))) = 1
   \<and> promise (app (run node ([Tick 5] @ Data ok_head # [Data ok_tail]) (request node get_plain))) =
     Some (Resolved \<lparr>HttpResponse.statusCode = 0, statusText = [], headers = [], body = []\<rparr>)"
proof -
  have c: "network node (port get_plain) (host get_plain) (the_https get_plain) = Established"
    by code_simp
  have t: "list_all isTick [Tick 5]"
    by simp
  have v: "parseResponse node ok_head =
      \<lparr>HttpResponse.statusCode = 0, statusText = [], headers = [], body = []\<rparr>"
    by code_simp
  show ?thesis
    using first_data_settles [OF c t, of ok_head "[Data ok_tail]"] by (simp only: v)
qed

text \<open>
  C3 at a failing input. The response cut inside a header name resolves the promise
  with the zero-valued response at the first chunk, although the buffer
  \<^verbatim>\<open>responseData\<close> goes on to hold the whole response; delivered as one chunk,
  the same bytes resolve it with status 200 and the body.
\<close>

theorem split_response_evaluation:
  "promise (app (run node [Data ok_head, Data ok_tail] (request node get_plain))) =
     Some (Resolved \<lparr>HttpResponse.statusCode = 0, statusText = [], headers = [], body = []\<rparr>)
   \<and> promise (app (run node [Data (ok_head @ ok_tail)] (request node get_plain))) =
     Some (Resolved \<lparr>HttpResponse.statusCode = 200, statusText = ''OK'',
       headers = [(''content-length'', ''2'')], body = ''OK''\<rparr>)
   \<and> responseData (app (run node [Data ok_head, Data ok_tail] (request node get_plain))) =
     ok_head @ ok_tail"
  by code_simp

text \<open>
  C4 at a failing input. For bytes whose status line cannot be parsed, the parser
  returns an Error, the \<^verbatim>\<open>catch\<close> clause of \<^verbatim>\<open>parseResponse\<close> receives it, and
  the promise is resolved with the zero-valued response.
\<close>

theorem malformed_status_evaluation:
  "snd (HTTPParser node not_http) = Inl (PlainError ''ParseError: status line'')
   \<and> caught node not_http = Some (PlainError ''ParseError: status line'')
   \<and> promise (app (run node [Data not_http] (request node get_plain))) =
     Some (Resolved \<lparr>HttpResponse.statusCode = 0, statusText = [], headers = [], body = []\<rparr>)"
  by code_simp

end
